theory Spec2Isabelle
  imports Complex_Main "HOL-Library.Multiset"
begin

section \<open>Python values used by the aggregation scripts\<close>

text \<open>
  The three scripts \<^verbatim>\<open>process-neighborhood-data.py\<close>, \<^verbatim>\<open>process-additional-data.py\<close> and
  \<^verbatim>\<open>update-neighborhood-data.py\<close> fold rows of civic data into grid cells, score the cells,
  filter them by a minimum count and write them sorted.

  Modelling conventions.
  \<^item> A Python \<^verbatim>\<open>float\<close> is an exact rational (\<^typ>\<open>rat\<close>): binary rounding of the arithmetic,
    infinities and NaN are not modelled. \<^verbatim>\<open>round\<close> and \<^verbatim>\<open>int\<close> act on the exact value,
    as they do in Python on the float they are given.
  \<^item> A Python \<^verbatim>\<open>int\<close> is an \<^typ>\<open>int\<close>; a \<^verbatim>\<open>str\<close> is a \<^typ>\<open>string\<close> of 8-bit characters.
  \<^item> A \<^verbatim>\<open>dict\<close> whose order of insertion is observable (the \<^verbatim>\<open>blocks\<close> table, the
    category counters) is an association list in insertion order with distinct keys.
  \<^item> A row of \<^verbatim>\<open>csv.DictReader\<close> is an association list from column names to text.
  \<^item> The builtin parsers \<^verbatim>\<open>float(str)\<close> and \<^verbatim>\<open>int(str)\<close> and the date test against the
    cutoff (\<^verbatim>\<open>datetime.strptime(...) >= cutoff\<close>) are parameters of the loops: \<open>None\<close>
    (resp. \<open>False\<close>) stands for the exception that the surrounding \<^verbatim>\<open>try\<close> swallows.
\<close>

type_synonym row = "(string \<times> string) list"

text \<open>\<^verbatim>\<open>row.get(k, d)\<close> for a string default.\<close>

definition row_get :: "row \<Rightarrow> string \<Rightarrow> string \<Rightarrow> string" where
  "row_get r k d = (case map_of r k of None \<Rightarrow> d | Some v \<Rightarrow> v)"

text \<open>\<^verbatim>\<open>float(row.get(k, 0))\<close>: a missing column gives \<^verbatim>\<open>float(0)\<close>.\<close>

definition get_float :: "(string \<Rightarrow> rat option) \<Rightarrow> row \<Rightarrow> string \<Rightarrow> rat option" where
  "get_float float_of r k = (case map_of r k of None \<Rightarrow> Some 0 | Some v \<Rightarrow> float_of v)"


text \<open>Truthiness of a value that is \<^verbatim>\<open>None\<close> or a string: \<^verbatim>\<open>None\<close> and \<^verbatim>\<open>''\<close> are falsy.\<close>

definition truthy :: "string option \<Rightarrow> bool" where
  "truthy v = (case v of None \<Rightarrow> False | Some s \<Rightarrow> s \<noteq> [])"

text \<open>\<^verbatim>\<open>v or ''\<close>.\<close>

definition or_empty :: "string option \<Rightarrow> string" where
  "or_empty v = (case v of None \<Rightarrow> [] | Some s \<Rightarrow> s)"

text \<open>\<^verbatim>\<open>sub in s\<close> on strings.\<close>

fun starts_with :: "string \<Rightarrow> string \<Rightarrow> bool" where
  "starts_with s [] = True"
| "starts_with [] (c # sub) = False"
| "starts_with (x # s) (c # sub) = (x = c \<and> starts_with s sub)"

fun py_in :: "string \<Rightarrow> string \<Rightarrow> bool" where
  "py_in sub [] = (sub = [])"
| "py_in sub (x # s) = (starts_with (x # s) sub \<or> py_in sub s)"

text \<open>\<^verbatim>\<open>str.upper\<close> and \<^verbatim>\<open>str.strip\<close>, on ASCII.\<close>

definition upper_char :: "char \<Rightarrow> char" where
  "upper_char c =
     (let n = (of_char c :: int) in if 97 \<le> n \<and> n \<le> 122 then char_of (n - 32) else c)"

definition py_upper :: "string \<Rightarrow> string" where
  "py_upper s = map upper_char s"

definition is_space :: "char \<Rightarrow> bool" where
  "is_space c = (let n = (of_char c :: int) in (9 \<le> n \<and> n \<le> 13) \<or> (28 \<le> n \<and> n \<le> 32))"

definition py_strip :: "string \<Rightarrow> string" where
  "py_strip s = rev (dropWhile is_space (rev (dropWhile is_space s)))"


text \<open>
  \<^verbatim>\<open>round(x)\<close> with one argument: the nearest integer, a tie going to the even one
  (Python 3).
\<close>

definition py_round :: "rat \<Rightarrow> int" where
  "py_round x =
     (let f = \<lfloor>x\<rfloor>; d = x - of_int f
      in if d < 1 / 2 then f
         else if 1 / 2 < d then f + 1
         else if even f then f else f + 1)"

text \<open>\<^verbatim>\<open>round(x, n)\<close>: \<open>n\<close> decimal places, ties to even on the exact value.\<close>

definition py_round_nd :: "rat \<Rightarrow> nat \<Rightarrow> rat" where
  "py_round_nd x n = of_int (py_round (x * 10 ^ n)) / 10 ^ n"

text \<open>\<^verbatim>\<open>int(x)\<close> of a float: truncation towards zero.\<close>

definition py_int :: "rat \<Rightarrow> int" where
  "py_int x = (if 0 \<le> x then \<lfloor>x\<rfloor> else \<lceil>x\<rceil>)"

text \<open>
  Concrete parsers for plain decimal literals, used to run the loops on concrete rows:
  an optional sign, digits, and for \<open>decimal_float\<close> an optional fraction. Python's
  \<^verbatim>\<open>float\<close> and \<^verbatim>\<open>int\<close> accept more (exponents, underscores, surrounding blanks, \<^verbatim>\<open>inf\<close>,
  \<^verbatim>\<open>nan\<close>); on the literals accepted here they return the value computed here.
\<close>

definition is_digit :: "char \<Rightarrow> bool" where
  "is_digit c = (let n = (of_char c :: int) in 48 \<le> n \<and> n \<le> 57)"

definition digits_value :: "string \<Rightarrow> int" where
  "digits_value s = fold (\<lambda>c v. 10 * v + (of_char c - 48)) s 0"



definition unsigned_int :: "string \<Rightarrow> int option" where
  "unsigned_int s = (if s \<noteq> [] \<and> list_all is_digit s then Some (digits_value s) else None)"

fun decimal_int :: "string \<Rightarrow> int option" where
  "decimal_int [] = None"
| "decimal_int (c # s) =
     (if c = CHR ''-'' then map_option uminus (unsigned_int s)
      else if c = CHR ''+'' then unsigned_int s
      else unsigned_int (c # s))"


section \<open>Grid quantisation\<close>

text \<open>
  \<^verbatim>\<open>BLOCK_SIZE\<close> is 0.002 in \<^verbatim>\<open>process-neighborhood-data.py\<close> and
  \<^verbatim>\<open>update-neighborhood-data.py\<close>, and 0.004 in \<^verbatim>\<open>process-additional-data.py\<close>; the
  function is the same in the three files and takes the module constant as an argument here.
\<close>

definition BLOCK_SIZE_neighborhood :: rat where
  "BLOCK_SIZE_neighborhood = 2 / 1000"

definition BLOCK_SIZE_additional :: rat where
  "BLOCK_SIZE_additional = 4 / 1000"

definition round_to_block :: "rat \<Rightarrow> rat \<Rightarrow> rat \<Rightarrow> rat \<times> rat" where
  "round_to_block BLOCK_SIZE lat lng =
     (of_int (py_round (lat / BLOCK_SIZE)) * BLOCK_SIZE,
      of_int (py_round (lng / BLOCK_SIZE)) * BLOCK_SIZE)"

text \<open>The test \<^verbatim>\<open>41.6 < lat < 42.1 and -88.0 < lng < -87.5\<close>.\<close>

definition in_bounds :: "rat \<Rightarrow> rat \<Rightarrow> bool" where
  "in_bounds lat lng \<longleftrightarrow> 416 / 10 < lat \<and> lat < 421 / 10 \<and> - 88 < lng \<and> lng < - 875 / 10"


section \<open>The table of blocks\<close>

type_synonym block_key = "rat \<times> rat"

text \<open>
  \<^verbatim>\<open>blocks = defaultdict(lambda: d)\<close>: \<open>update_block k d f blocks\<close> is what a run of
  statements \<^verbatim>\<open>blocks[k][...] = ...\<close> amounting to \<open>f\<close> leaves: the entry of \<open>k\<close> is
  created from \<open>d\<close> at the end of the table when it is missing, and updated in place.
\<close>

fun update_block :: "'k \<Rightarrow> 'v \<Rightarrow> ('v \<Rightarrow> 'v) \<Rightarrow> ('k \<times> 'v) list \<Rightarrow> ('k \<times> 'v) list" where
  "update_block k d f [] = [(k, f d)]"
| "update_block k d f ((k', v) # blocks) =
     (if k' = k then (k', f v) # blocks else (k', v) # update_block k d f blocks)"

text \<open>\<^verbatim>\<open>d[k] = v\<close> on a plain dict, and \<^verbatim>\<open>d.get(k, 0)\<close> and \<^verbatim>\<open>d[k] += 1\<close> on a counter.\<close>

definition dict_set :: "'k \<Rightarrow> 'v \<Rightarrow> ('k \<times> 'v) list \<Rightarrow> ('k \<times> 'v) list" where
  "dict_set k v d = update_block k v (\<lambda>_. v) d"

definition get0 :: "(string \<times> int) list \<Rightarrow> string \<Rightarrow> int" where
  "get0 d k = (case map_of d k of None \<Rightarrow> 0 | Some n \<Rightarrow> n)"

definition incr :: "(string \<times> int) list \<Rightarrow> string \<Rightarrow> (string \<times> int) list" where
  "incr d k = update_block k 0 (\<lambda>n. n + 1) d"

text \<open>
  The flattening loop
  \<^verbatim>\<open>for cat, types in TABLE.items(): for t in types: type_to_category[t] = cat\<close>.
\<close>

definition flatten_categories :: "(string \<times> string list) list \<Rightarrow> (string \<times> string) list" where
  "flatten_categories table =
     fold (\<lambda>(cat, types) d. fold (\<lambda>t d. dict_set t cat d) types d) table []"

text \<open>The cells. Every grid dataset has a count and an address.\<close>

record block =
  block_count :: int
  address :: "string option"

record block_cat = block +
  categories :: "(string \<times> int) list"
  ward :: "string option"

record block_311 = block_cat +
  recent_count :: int

record block_crimes = block_cat +
  arrests :: int

section \<open>311 service requests (\<^verbatim>\<open>process-neighborhood-data.py\<close>)\<close>

definition RELEVANT_CATEGORIES :: "(string \<times> string list) list" where
  "RELEVANT_CATEGORIES =
     [(''infrastructure'',
         [''Pothole in Street Complaint'', ''Alley Pothole Complaint'',
          ''Street Light Out Complaint'', ''Alley Light Out Complaint'',
          ''Traffic Signal Out Complaint'', ''Sign Repair Request'',
          ''Sidewalk Inspection Request'']),
      (''sanitation'',
         [''Graffiti Removal Request'', ''Garbage Cart Maintenance'',
          ''Fly Dumping Complaint'', ''Sanitation Code Violation'',
          ''Dead Animal Pick-Up Request'']),
      (''pests'', [''Rodent Baiting/Rat Complaint'', ''Stray Animal Complaint'']),
      (''vehicles'', [''Abandoned Vehicle Complaint'']),
      (''trees'',
         [''Tree Trim Request'', ''Tree Debris Clean-Up Request'',
          ''Tree Emergency'', ''Weed Removal Request'']),
      (''water'',
         [''Water On Street Complaint'', ''Sewer Cleaning Inspection Request'',
          ''Check for Leak''])]"

definition new_block_311 :: block_311 where
  "new_block_311 =
     \<lparr>block_count = 0, address = None, categories = [], ward = None, recent_count = 0\<rparr>"

text \<open>
  The guards of the loop body, in the order of the source: each \<^verbatim>\<open>continue\<close> is \<open>None\<close>; a
  row that passes gives its block key and its category.
\<close>

definition accept_311 :: "(string \<Rightarrow> rat option) \<Rightarrow> row \<Rightarrow> (block_key \<times> string) option" where
  "accept_311 float_of r =
     (let sr_type = row_get r ''SR_TYPE'' '''' in
      if py_in ''INFORMATION ONLY'' sr_type \<or> py_in ''Aircraft'' sr_type then None
      else
        case find (\<lambda>(type_name, cat). py_in type_name sr_type)
               (flatten_categories RELEVANT_CATEGORIES) of
          None \<Rightarrow> None
        | Some (type_name, category) \<Rightarrow>
            if category = [] then None
            else
              (case get_float float_of r ''LATITUDE'' of
                 None \<Rightarrow> None
               | Some lat \<Rightarrow>
                   (case get_float float_of r ''LONGITUDE'' of
                      None \<Rightarrow> None
                    | Some lng \<Rightarrow>
                        if \<not> in_bounds lat lng then None
                        else Some (round_to_block BLOCK_SIZE_neighborhood lat lng, category))))"

text \<open>The statements that follow \<^verbatim>\<open>block_key = round_to_block(lat, lng)\<close>, on the cell.\<close>

definition add_311 :: "(string \<Rightarrow> bool) \<Rightarrow> string \<Rightarrow> row \<Rightarrow> block_311 \<Rightarrow> block_311" where
  "add_311 recent category r b0 =
     (let b1 = b0\<lparr>block_count := block_count b0 + 1\<rparr>;
          b2 = b1\<lparr>categories := incr (categories b1) category\<rparr>;
          b3 = (if \<not> truthy (ward b2) then b2\<lparr>ward := Some (row_get r ''WARD'' '''')\<rparr> else b2);
          b4 = (if \<not> truthy (address b3)
                then b3\<lparr>address := Some (row_get r ''STREET_ADDRESS'' '''')\<rparr> else b3);
          created = row_get r ''CREATED_DATE'' ''''
      in if created \<noteq> [] \<and> recent created
         then b4\<lparr>recent_count := recent_count b4 + 1\<rparr> else b4)"

definition process_311_row ::
  "(string \<Rightarrow> rat option) \<Rightarrow> (string \<Rightarrow> bool) \<Rightarrow> row \<Rightarrow>
   (block_key \<times> block_311) list \<Rightarrow> (block_key \<times> block_311) list" where
  "process_311_row float_of recent r blocks =
     (case accept_311 float_of r of
        None \<Rightarrow> blocks
      | Some (block_key, category) \<Rightarrow>
          update_block block_key new_block_311 (add_311 recent category r) blocks)"


section \<open>Crimes (\<^verbatim>\<open>process-neighborhood-data.py\<close>)\<close>

definition CRIME_CATEGORIES :: "(string \<times> string list) list" where
  "CRIME_CATEGORIES =
     [(''violent'',
         [''HOMICIDE'', ''ROBBERY'', ''ASSAULT'', ''BATTERY'', ''CRIMINAL SEXUAL ASSAULT'']),
      (''property'',
         [''THEFT'', ''BURGLARY'', ''MOTOR VEHICLE THEFT'', ''CRIMINAL DAMAGE'', ''ARSON'']),
      (''drugs'', [''NARCOTICS'']),
      (''weapons'', [''WEAPONS VIOLATION'']),
      (''other'', [''OTHER OFFENSE'', ''DECEPTIVE PRACTICE'', ''CRIMINAL TRESPASS''])]"

definition new_block_crimes :: block_crimes where
  "new_block_crimes =
     \<lparr>block_count = 0, address = None, categories = [], ward = None, arrests = 0\<rparr>"

definition accept_crimes :: "(string \<Rightarrow> rat option) \<Rightarrow> row \<Rightarrow> (block_key \<times> string) option" where
  "accept_crimes float_of r =
     (let crime_type = py_strip (row_get r '' PRIMARY DESCRIPTION'' '''');
          category = (case map_of (flatten_categories CRIME_CATEGORIES) crime_type of
                        None \<Rightarrow> ''other'' | Some cat \<Rightarrow> cat)
      in case get_float float_of r ''LATITUDE'' of
           None \<Rightarrow> None
         | Some lat \<Rightarrow>
             (case get_float float_of r ''LONGITUDE'' of
                None \<Rightarrow> None
              | Some lng \<Rightarrow>
                  if \<not> in_bounds lat lng then None
                  else Some (round_to_block BLOCK_SIZE_neighborhood lat lng, category)))"

definition add_crimes :: "string \<Rightarrow> row \<Rightarrow> block_crimes \<Rightarrow> block_crimes" where
  "add_crimes category r b0 =
     (let b1 = b0\<lparr>block_count := block_count b0 + 1\<rparr>;
          b2 = b1\<lparr>categories := incr (categories b1) category\<rparr>;
          b3 = (if \<not> truthy (ward b2) then b2\<lparr>ward := Some (row_get r ''WARD'' '''')\<rparr> else b2);
          b4 = (if \<not> truthy (address b3)
                then b3\<lparr>address := Some (row_get r ''BLOCK'' '''')\<rparr> else b3)
      in if py_upper (row_get r ''ARREST'' '''') = ''Y''
         then b4\<lparr>arrests := arrests b4 + 1\<rparr> else b4)"

definition process_crimes_row ::
  "(string \<Rightarrow> rat option) \<Rightarrow> row \<Rightarrow>
   (block_key \<times> block_crimes) list \<Rightarrow> (block_key \<times> block_crimes) list" where
  "process_crimes_row float_of r blocks =
     (case accept_crimes float_of r of
        None \<Rightarrow> blocks
      | Some (block_key, category) \<Rightarrow>
          update_block block_key new_block_crimes (add_crimes category r) blocks)"


section \<open>Building permits and potholes (\<^verbatim>\<open>process-additional-data.py\<close>)\<close>

record block_permits = block_cat +
  total_cost :: rat
  permits_recent_count :: int

record block_potholes = block +
  potholes_filled :: int
  potholes_recent_count :: int













section \<open>Camera violations (\<^verbatim>\<open>process-additional-data.py\<close>)\<close>












section \<open>Scores, filters and the serialised data\<close>

text \<open>
  The cells of the datasets whose loop is not modelled: only their counters matter to the
  score, the filter and the output.
\<close>

record block_crashes = block +
  injuries :: int
  fatal :: int
  hit_and_run :: int

record block_licenses = block_cat +
  active :: int

record block_violations = block +
  high_risk :: int
  open_count :: int

record upd_block_potholes = block +
  filled :: int
  completed :: int

record upd_block_permits = block +
  issued :: int
  cost :: rat

record upd_block_licenses = block +
  upd_active :: int

text \<open>The values that occur in an output row.\<close>

datatype pyval = PInt int | PFloat rat | PStr string | PDict "(string \<times> int) list"

text \<open>The number in an integer position of a row, as the sort keys read it.\<close>

fun num :: "pyval \<Rightarrow> int" where
  "num (PInt n) = n"

text \<open>\<^verbatim>\<open>{k: v for k, v in blocks.items() if v['count'] >= threshold}\<close>.\<close>

definition filter_blocks ::
  "int \<Rightarrow> (block_key \<times> 'a block_scheme) list \<Rightarrow> (block_key \<times> 'a block_scheme) list" where
  "filter_blocks threshold blocks = filter (\<lambda>(k, v). block_count v \<ge> threshold) blocks"

text \<open>\<^verbatim>\<open>data.sort(key=lambda x: -x[i])\<close>: a stable sort, ascending in the key.\<close>

definition sort_desc :: "nat \<Rightarrow> pyval list list \<Rightarrow> pyval list list" where
  "sort_desc i data = sort_key (\<lambda>x. - num (x ! i)) data"

subsection \<open>\<^verbatim>\<open>process-neighborhood-data.py\<close> (and the same code in \<^verbatim>\<open>update-neighborhood-data.py\<close>)\<close>

definition score_311 :: "block_311 \<Rightarrow> int" where
  "score_311 b = min 100 (py_int (of_int (block_count b) / 50 * 100))"

definition row_311 :: "block_key \<times> block_311 \<Rightarrow> pyval list" where
  "row_311 = (\<lambda>((lat, lng), b).
     [PFloat (py_round_nd lat 4), PFloat (py_round_nd lng 4), PInt (block_count b),
      PInt (score_311 b), PDict (categories b), PStr (or_empty (ward b)),
      PStr (or_empty (address b)), PInt (recent_count b)])"

definition data_311 :: "(block_key \<times> block_311) list \<Rightarrow> pyval list list" where
  "data_311 blocks = sort_desc 2 (map row_311 (filter_blocks 3 blocks))"

text \<open>
  The crime score divides by the count: \<open>None\<close> is the \<^verbatim>\<open>ZeroDivisionError\<close> of a cell with
  count 0, which would end \<^verbatim>\<open>process_crimes\<close>.
\<close>

definition score_crimes :: "block_crimes \<Rightarrow> int option" where
  "score_crimes b =
     (let violent = get0 (categories b) ''violent'';
          property_crime = get0 (categories b) ''property''
      in if block_count b = 0 then None
         else Some (min 100 (py_int (of_int (violent * 3 + property_crime) / of_int (block_count b) * 50
                                       + of_int (block_count b) / 20 * 25))))"

definition row_crimes :: "block_key \<times> block_crimes \<Rightarrow> pyval list option" where
  "row_crimes = (\<lambda>((lat, lng), b).
     case score_crimes b of
       None \<Rightarrow> None
     | Some score \<Rightarrow>
         Some [PFloat (py_round_nd lat 4), PFloat (py_round_nd lng 4), PInt (block_count b),
               PInt score, PDict (categories b), PStr (or_empty (ward b)),
               PStr (or_empty (address b)), PInt (arrests b)])"

definition data_crimes :: "(block_key \<times> block_crimes) list \<Rightarrow> pyval list list option" where
  "data_crimes blocks = map_option (sort_desc 2) (those (map row_crimes (filter_blocks 2 blocks)))"

definition score_crashes :: "block_crashes \<Rightarrow> int" where
  "score_crashes b =
     (let injury_rate = (if block_count b > 0 then of_int (injuries b) / of_int (block_count b) else 0)
      in min 100 (py_int (of_int (fatal b * 20) + injury_rate * 30 + of_int (block_count b) / 50 * 30)))"

definition row_crashes :: "block_key \<times> block_crashes \<Rightarrow> pyval list" where
  "row_crashes = (\<lambda>((lat, lng), b).
     [PFloat (py_round_nd lat 4), PFloat (py_round_nd lng 4), PInt (block_count b),
      PInt (score_crashes b), PInt (injuries b), PInt (fatal b), PInt (hit_and_run b),
      PStr (or_empty (address b))])"

definition data_crashes :: "(block_key \<times> block_crashes) list \<Rightarrow> pyval list list" where
  "data_crashes blocks = sort_desc 2 (map row_crashes (filter_blocks 3 blocks))"

subsection \<open>\<^verbatim>\<open>process-additional-data.py\<close>\<close>

definition score_permits :: "block_permits \<Rightarrow> int" where
  "score_permits b =
     min 100 (py_int (of_int (block_count b) / 100 * 50 + (total_cost b / 1000000) * 50))"

definition row_permits :: "block_key \<times> block_permits \<Rightarrow> pyval list" where
  "row_permits = (\<lambda>((lat, lng), b).
     [PFloat (py_round_nd lat 4), PFloat (py_round_nd lng 4), PInt (block_count b),
      PInt (score_permits b), PDict (categories b), PStr (or_empty (ward b)),
      PStr (or_empty (address b)), PInt (py_int (total_cost b)), PInt (permits_recent_count b)])"

definition data_permits :: "(block_key \<times> block_permits) list \<Rightarrow> pyval list list" where
  "data_permits blocks = sort_desc 2 (map row_permits (filter_blocks 5 blocks))"

definition score_licenses :: "block_licenses \<Rightarrow> int" where
  "score_licenses b = min 100 (py_int (of_int (block_count b) / 50 * 100))"

definition row_licenses :: "block_key \<times> block_licenses \<Rightarrow> pyval list" where
  "row_licenses = (\<lambda>((lat, lng), b).
     [PFloat (py_round_nd lat 4), PFloat (py_round_nd lng 4), PInt (block_count b),
      PInt (score_licenses b), PDict (categories b), PStr (or_empty (ward b)),
      PStr (or_empty (address b)), PInt (active b)])"

definition data_licenses :: "(block_key \<times> block_licenses) list \<Rightarrow> pyval list list" where
  "data_licenses blocks = sort_desc 2 (map row_licenses (filter_blocks 3 blocks))"

definition score_potholes :: "block_potholes \<Rightarrow> int" where
  "score_potholes b = min 100 (py_int (of_int (potholes_filled b) / 50 * 100))"

definition row_potholes :: "block_key \<times> block_potholes \<Rightarrow> pyval list" where
  "row_potholes = (\<lambda>((lat, lng), b).
     [PFloat (py_round_nd lat 4), PFloat (py_round_nd lng 4), PInt (block_count b),
      PInt (potholes_filled b), PInt (score_potholes b), PStr (or_empty (address b)),
      PInt (potholes_recent_count b)])"

definition data_potholes :: "(block_key \<times> block_potholes) list \<Rightarrow> pyval list list" where
  "data_potholes blocks = sort_desc 3 (map row_potholes (filter_blocks 3 blocks))"





subsection \<open>\<^verbatim>\<open>update-neighborhood-data.py\<close>\<close>

text \<open>
  Its \<^verbatim>\<open>process_311\<close>, \<^verbatim>\<open>process_crimes\<close> and \<^verbatim>\<open>process_crashes\<close> filter, score and sort
  with the statements modelled by \<open>data_311\<close>, \<open>data_crimes\<close> and \<open>data_crashes\<close>. The four
  other datasets are its own.
\<close>

definition score_violations :: "block_violations \<Rightarrow> int" where
  "score_violations b =
     min 100 (py_int (of_int (high_risk b * 10) + of_int (block_count b) / 10 * 50))"

definition row_violations :: "block_key \<times> block_violations \<Rightarrow> pyval list" where
  "row_violations = (\<lambda>((lat, lng), b).
     [PFloat (py_round_nd lat 4), PFloat (py_round_nd lng 4), PInt (block_count b),
      PInt (score_violations b), PInt (high_risk b), PInt (open_count b),
      PStr (or_empty (address b))])"

definition data_violations :: "(block_key \<times> block_violations) list \<Rightarrow> pyval list list" where
  "data_violations blocks = sort_desc 2 (map row_violations (filter_blocks 2 blocks))"

definition upd_row_potholes :: "block_key \<times> upd_block_potholes \<Rightarrow> pyval list" where
  "upd_row_potholes = (\<lambda>((lat, lng), b).
     [PFloat (py_round_nd lat 4), PFloat (py_round_nd lng 4), PInt (block_count b),
      PInt (filled b), PInt (completed b), PStr (or_empty (address b))])"

definition upd_data_potholes :: "(block_key \<times> upd_block_potholes) list \<Rightarrow> pyval list list" where
  "upd_data_potholes blocks = sort_desc 2 (map upd_row_potholes (filter_blocks 2 blocks))"

definition upd_row_permits :: "block_key \<times> upd_block_permits \<Rightarrow> pyval list" where
  "upd_row_permits = (\<lambda>((lat, lng), b).
     [PFloat (py_round_nd lat 4), PFloat (py_round_nd lng 4), PInt (block_count b),
      PInt (issued b), PInt (py_int (cost b)), PStr (or_empty (address b))])"

definition upd_data_permits :: "(block_key \<times> upd_block_permits) list \<Rightarrow> pyval list list" where
  "upd_data_permits blocks = sort_desc 2 (map upd_row_permits (filter_blocks 2 blocks))"

definition upd_row_licenses :: "block_key \<times> upd_block_licenses \<Rightarrow> pyval list" where
  "upd_row_licenses = (\<lambda>((lat, lng), b).
     [PFloat (py_round_nd lat 4), PFloat (py_round_nd lng 4), PInt (block_count b),
      PInt (upd_active b), PStr (or_empty (address b))])"

definition upd_data_licenses :: "(block_key \<times> upd_block_licenses) list \<Rightarrow> pyval list list" where
  "upd_data_licenses blocks = sort_desc 2 (map upd_row_licenses (filter_blocks 2 blocks))"

section \<open>Notions used to state the properties\<close>

text \<open>The key and the category of an accepted row, separately.\<close>

definition key_311 :: "(string \<Rightarrow> rat option) \<Rightarrow> row \<Rightarrow> block_key option" where
  "key_311 float_of r = map_option fst (accept_311 float_of r)"

definition category_311 :: "(string \<Rightarrow> rat option) \<Rightarrow> row \<Rightarrow> string" where
  "category_311 float_of r = (case accept_311 float_of r of None \<Rightarrow> [] | Some (k, c) \<Rightarrow> c)"

definition key_crimes :: "(string \<Rightarrow> rat option) \<Rightarrow> row \<Rightarrow> block_key option" where
  "key_crimes float_of r = map_option fst (accept_crimes float_of r)"

definition category_crimes :: "(string \<Rightarrow> rat option) \<Rightarrow> row \<Rightarrow> string" where
  "category_crimes float_of r = (case accept_crimes float_of r of None \<Rightarrow> [] | Some (k, c) \<Rightarrow> c)"


text \<open>The first non-empty string of a list, the empty string when there is none.\<close>

definition first_nonempty :: "string list \<Rightarrow> string" where
  "first_nonempty ws = (case find (\<lambda>w. w \<noteq> []) ws of None \<Rightarrow> [] | Some w \<Rightarrow> w)"

text \<open>The address that \<^verbatim>\<open>process_permits\<close> builds from a row.\<close>

definition permit_address :: "row \<Rightarrow> string" where
  "permit_address r =
     py_strip (row_get r ''STREET_NUMBER'' '''' @ '' '' @
               row_get r ''STREET_DIRECTION'' '''' @ '' '' @
               row_get r ''STREET_NAME'' '''')"






section \<open>Properties\<close>

subsection \<open>Rounding\<close>

lemma py_round_of_int: "py_round (of_int n) = n"
  by (simp add: py_round_def)



lemma block_size_nonzero:
  "BLOCK_SIZE_neighborhood \<noteq> 0" "BLOCK_SIZE_additional \<noteq> 0"
  by (simp_all add: BLOCK_SIZE_neighborhood_def BLOCK_SIZE_additional_def)

lemma round_to_block_again:
  assumes "bs \<noteq> 0"
  shows "round_to_block bs (fst (round_to_block bs lat lng)) (snd (round_to_block bs lat lng))
         = round_to_block bs lat lng"
  using assms by (simp add: round_to_block_def py_round_of_int)


text \<open>
  C9. Quantisation is idempotent: for every coordinate pair, \<open>round_to_block\<close> applied to
  the pair it returned gives that pair again, for the block size of each script.
\<close>

theorem round_to_block_idempotent:
  "round_to_block BLOCK_SIZE_neighborhood
     (fst (round_to_block BLOCK_SIZE_neighborhood lat lng))
     (snd (round_to_block BLOCK_SIZE_neighborhood lat lng))
   = round_to_block BLOCK_SIZE_neighborhood lat lng
   \<and> round_to_block BLOCK_SIZE_additional
       (fst (round_to_block BLOCK_SIZE_additional lat lng))
       (snd (round_to_block BLOCK_SIZE_additional lat lng))
     = round_to_block BLOCK_SIZE_additional lat lng"
  by (simp add: round_to_block_again block_size_nonzero)




lemma capped_score_bounds:
  assumes "0 \<le> x"
  shows "0 \<le> min 100 (py_int x) \<and> min 100 (py_int x) \<le> 100"
  using assms by (simp add: py_int_def)

text \<open>
  C8. For every cell that reaches the scoring phase (its count at least the threshold of
  its dataset, its accumulators non-negative), every score formula gives an integer between
  0 and 100; the crime score, which divides by the count, is defined there.
\<close>

theorem score_bounds:
  assumes "3 \<le> block_count b_311"
    and "2 \<le> block_count b_crimes"
    and "0 \<le> get0 (categories b_crimes) ''violent''"
    and "0 \<le> get0 (categories b_crimes) ''property''"
    and "3 \<le> block_count b_crashes" and "0 \<le> injuries b_crashes" and "0 \<le> fatal b_crashes"
    and "5 \<le> block_count b_permits" and "0 \<le> total_cost b_permits"
    and "3 \<le> block_count b_licenses"
    and "3 \<le> block_count b_potholes" and "0 \<le> potholes_filled b_potholes"
    and "2 \<le> block_count b_violations" and "0 \<le> high_risk b_violations"
  shows "(0 \<le> score_311 b_311 \<and> score_311 b_311 \<le> 100)
       \<and> (\<exists>s. score_crimes b_crimes = Some s \<and> 0 \<le> s \<and> s \<le> 100)
       \<and> (0 \<le> score_crashes b_crashes \<and> score_crashes b_crashes \<le> 100)
       \<and> (0 \<le> score_permits b_permits \<and> score_permits b_permits \<le> 100)
       \<and> (0 \<le> score_licenses b_licenses \<and> score_licenses b_licenses \<le> 100)
       \<and> (0 \<le> score_potholes b_potholes \<and> score_potholes b_potholes \<le> 100)
       \<and> (0 \<le> score_violations b_violations \<and> score_violations b_violations \<le> 100)"
proof -
  have s1: "0 \<le> score_311 b_311 \<and> score_311 b_311 \<le> 100"
    unfolding score_311_def using assms(1) by (intro capped_score_bounds) simp
  have s2: "\<exists>s. score_crimes b_crimes = Some s \<and> 0 \<le> s \<and> s \<le> 100"
  proof -
    have "0 \<le> (of_int (get0 (categories b_crimes) ''violent'' * 3
                  + get0 (categories b_crimes) ''property'') :: rat)
              / of_int (block_count b_crimes) * 50
              + of_int (block_count b_crimes) / 20 * 25"
      using assms(2-4) by (intro add_nonneg_nonneg mult_nonneg_nonneg divide_nonneg_nonneg) simp_all
    from capped_score_bounds [OF this] show ?thesis
      using assms(2) by (simp add: score_crimes_def Let_def)
  qed
  have s3: "0 \<le> score_crashes b_crashes \<and> score_crashes b_crashes \<le> 100"
  proof -
    have "0 \<le> (of_int (fatal b_crashes * 20) :: rat)
              + of_int (injuries b_crashes) / of_int (block_count b_crashes) * 30
              + of_int (block_count b_crashes) / 50 * 30"
      using assms(5-7) by (intro add_nonneg_nonneg mult_nonneg_nonneg divide_nonneg_nonneg) simp_all
    from capped_score_bounds [OF this] show ?thesis
      using assms(5) by (simp add: score_crashes_def Let_def)
  qed
  have s4: "0 \<le> score_permits b_permits \<and> score_permits b_permits \<le> 100"
    unfolding score_permits_def using assms(8,9)
    by (intro capped_score_bounds add_nonneg_nonneg mult_nonneg_nonneg divide_nonneg_nonneg) simp_all
  have s5: "0 \<le> score_licenses b_licenses \<and> score_licenses b_licenses \<le> 100"
    unfolding score_licenses_def using assms(10) by (intro capped_score_bounds) simp
  have s6: "0 \<le> score_potholes b_potholes \<and> score_potholes b_potholes \<le> 100"
    unfolding score_potholes_def using assms(12) by (intro capped_score_bounds) simp
  have s7: "0 \<le> score_violations b_violations \<and> score_violations b_violations \<le> 100"
    unfolding score_violations_def using assms(13,14)
    by (intro capped_score_bounds add_nonneg_nonneg mult_nonneg_nonneg divide_nonneg_nonneg) simp_all
  from s1 s2 s3 s4 s5 s6 s7 show ?thesis by blast
qed

text \<open>
  The theorem on one cell per dataset, among them the two-crime cell of the specification
  (one violent, one property) and cells whose uncapped formula exceeds 100.
\<close>

theorem score_bounds_witness:
  "(0 \<le> score_311 \<lparr>block_count = 60, address = None, categories = [(''pests'', 60)],
                    ward = None, recent_count = 4\<rparr>
    \<and> score_311 \<lparr>block_count = 60, address = None, categories = [(''pests'', 60)],
                  ward = None, recent_count = 4\<rparr> \<le> 100)
   \<and> (\<exists>s. score_crimes \<lparr>block_count = 2, address = None,
                          categories = [(''violent'', 1), (''property'', 1)],
                          ward = None, arrests = 0\<rparr> = Some s \<and> 0 \<le> s \<and> s \<le> 100)
   \<and> (0 \<le> score_crashes \<lparr>block_count = 3, address = None, injuries = 7, fatal = 5,
                          hit_and_run = 1\<rparr>
      \<and> score_crashes \<lparr>block_count = 3, address = None, injuries = 7, fatal = 5,
                        hit_and_run = 1\<rparr> \<le> 100)
   \<and> (0 \<le> score_permits \<lparr>block_count = 5, address = None, categories = [(''other'', 5)],
                          ward = None, total_cost = 1234567 / 100, permits_recent_count = 0\<rparr>
      \<and> score_permits \<lparr>block_count = 5, address = None, categories = [(''other'', 5)],
                        ward = None, total_cost = 1234567 / 100, permits_recent_count = 0\<rparr>
          \<le> 100)
   \<and> (0 \<le> score_licenses \<lparr>block_count = 3, address = None, categories = [(''food'', 3)],
                           ward = None, active = 2\<rparr>
      \<and> score_licenses \<lparr>block_count = 3, address = None, categories = [(''food'', 3)],
                         ward = None, active = 2\<rparr> \<le> 100)
   \<and> (0 \<le> score_potholes \<lparr>block_count = 3, address = None, potholes_filled = 40,
                           potholes_recent_count = 0\<rparr>
      \<and> score_potholes \<lparr>block_count = 3, address = None, potholes_filled = 40,
                         potholes_recent_count = 0\<rparr> \<le> 100)
   \<and> (0 \<le> score_violations \<lparr>block_count = 2, address = None, high_risk = 11, open_count = 1\<rparr>
      \<and> score_violations \<lparr>block_count = 2, address = None, high_risk = 11, open_count = 1\<rparr>
          \<le> 100)"
  by (rule score_bounds) (simp_all add: get0_def)

subsection \<open>The table of blocks\<close>


lemma keys_update_block:
  "map fst (update_block k d f bs)
   = (if k \<in> set (map fst bs) then map fst bs else map fst bs @ [k])"
  by (induction bs) (auto simp: rev_image_eqI)

lemma distinct_update_block:
  "distinct (map fst bs) \<Longrightarrow> distinct (map fst (update_block k d f bs))"
  by (simp add: keys_update_block)


lemma fold_blocks_distinct:
  assumes step: "\<And>r bs. step r bs
                   = (case keyf r of None \<Rightarrow> bs | Some k \<Rightarrow> update_block k d (mut r) bs)"
    and "distinct (map fst bs)"
  shows "distinct (map fst (fold step rs bs))"
  using assms(2)
proof (induction rs arbitrary: bs)
  case Nil
  then show ?case by simp
next
  case (Cons r rs)
  have "distinct (map fst (step r bs))"
    using Cons.prems by (cases "keyf r") (simp_all add: step distinct_update_block)
  then show ?case using Cons.IH by simp
qed

lemma fold_skip:
  assumes "step r = id"
  shows "fold step (xs @ r # ys) bs = fold step (xs @ ys) bs"
  using assms by simp

subsection \<open>Latched fields\<close>

lemma latch_fold:
  assumes upd: "\<And>r b. fld (upd r b) = (if truthy (fld b) then fld b else Some (val r))"
  shows "fld (fold upd rs b)
         = (if truthy (fld b) \<or> rs = [] then fld b else Some (first_nonempty (map val rs)))"
proof (induction rs arbitrary: b)
  case Nil
  show ?case by simp
next
  case (Cons r rs)
  show ?case
  proof (cases "truthy (fld b)")
    case True
    then show ?thesis using Cons [of "upd r b"] by (simp add: upd)
  next
    case False
    then show ?thesis using Cons [of "upd r b"]
      by (cases "val r = []") (simp_all add: upd truthy_def first_nonempty_def)
  qed
qed

subsection \<open>The loops as folds over the table\<close>

lemma process_311_row_step:
  "process_311_row f rc r bs
   = (case key_311 f r of
        None \<Rightarrow> bs
      | Some k \<Rightarrow> update_block k new_block_311 (add_311 rc (category_311 f r) r) bs)"
  by (simp add: process_311_row_def key_311_def category_311_def split: option.splits)

lemma process_crimes_row_step:
  "process_crimes_row f r bs
   = (case key_crimes f r of
        None \<Rightarrow> bs
      | Some k \<Rightarrow> update_block k new_block_crimes (add_crimes (category_crimes f r) r) bs)"
  by (simp add: process_crimes_row_def key_crimes_def category_crimes_def split: option.splits)






subsection \<open>Cameras\<close>













lemma sort_desc_set: "set (sort_desc i data) = set data"
  by (simp add: sort_desc_def)





subsection \<open>Filtering and sorting\<close>

lemma sort_desc_mset: "mset (sort_desc i data) = mset data"
  by (simp add: sort_desc_def)

lemma sort_desc_length: "length (sort_desc i data) = length data"
  by (simp add: sort_desc_def)

lemma sort_desc_nth_mono:
  assumes "m < n" and "n < length (sort_desc i data)"
  shows "num (sort_desc i data ! n ! i) \<le> num (sort_desc i data ! m ! i)"
proof -
  let ?key = "\<lambda>x. - num (x ! i)"
  have "sorted (map ?key (sort_desc i data))"
    unfolding sort_desc_def by (rule sorted_sort_key)
  then have "map ?key (sort_desc i data) ! m \<le> map ?key (sort_desc i data) ! n"
    using assms by (intro sorted_nth_mono) simp_all
  then show ?thesis using assms by simp
qed

lemma filter_blocks_member:
  "(k, b) \<in> set (filter_blocks t blocks) \<longleftrightarrow> (k, b) \<in> set blocks \<and> t \<le> block_count b"
  by (auto simp: filter_blocks_def)

lemma data_member:
  assumes count: "\<And>k b. mk (k, b) ! 2 = PInt (block_count b)"
    and mem: "(k, b) \<in> set blocks"
  shows "mk (k, b) \<in> set (sort_desc i (map mk (filter_blocks t blocks))) \<longleftrightarrow> t \<le> block_count b"
proof
  assume "mk (k, b) \<in> set (sort_desc i (map mk (filter_blocks t blocks)))"
  then obtain k' b' where kb: "(k', b') \<in> set (filter_blocks t blocks)" "mk (k, b) = mk (k', b')"
    by (auto simp: sort_desc_set)
  then have "PInt (block_count b) = PInt (block_count b')"
    using count [of k b] count [of k' b'] by simp
  then show "t \<le> block_count b" using kb(1) by (simp add: filter_blocks_member)
next
  assume "t \<le> block_count b"
  then have "(k, b) \<in> set (filter_blocks t blocks)"
    using mem by (simp add: filter_blocks_member)
  then show "mk (k, b) \<in> set (sort_desc i (map mk (filter_blocks t blocks)))"
    by (simp add: sort_desc_set)
qed

lemma data_exact:
  assumes count: "\<And>k b. mk (k, b) ! 2 = PInt (block_count b)"
    and mem: "(k, b) \<in> set blocks"
  shows "(block_count b = t \<longrightarrow> mk (k, b) \<in> set (sort_desc i (map mk (filter_blocks t blocks))))
       \<and> (block_count b = t - 1 \<longrightarrow> mk (k, b) \<notin> set (sort_desc i (map mk (filter_blocks t blocks))))"
  using data_member [of mk k b blocks i t, OF count mem] by auto

lemma those_map_Some:
  assumes "\<And>x. x \<in> set xs \<Longrightarrow> f x = Some (g x)"
  shows "those (map f xs) = Some (map g xs)"
  using assms by (induction xs) simp_all

lemma row_crimes_Some:
  assumes "block_count b \<noteq> 0"
  shows "\<exists>s. score_crimes b = Some s
           \<and> row_crimes ((lat, lng), b)
             = Some [PFloat (py_round_nd lat 4), PFloat (py_round_nd lng 4), PInt (block_count b),
                     PInt s, PDict (categories b), PStr (or_empty (ward b)),
                     PStr (or_empty (address b)), PInt (arrests b)]"
  using assms by (simp add: row_crimes_def score_crimes_def Let_def)

lemma data_crimes_exact:
  assumes mem: "(k, b) \<in> set blocks"
  shows "\<exists>data. data_crimes blocks = Some data
           \<and> (block_count b = 2 \<longrightarrow> (\<exists>x. row_crimes (k, b) = Some x \<and> x \<in> set data))
           \<and> (block_count b = 1 \<longrightarrow> (\<forall>x. row_crimes (k, b) = Some x \<longrightarrow> x \<notin> set data))"
proof -
  define g where "g = (\<lambda>kb. the (row_crimes kb))"
  have some: "row_crimes kb = Some (g kb)" if "kb \<in> set (filter_blocks 2 blocks)" for kb
  proof -
    obtain lat lng c where kb: "kb = ((lat, lng), c)" by (metis surj_pair)
    then have "block_count c \<noteq> 0" using that by (auto simp: filter_blocks_def)
    from row_crimes_Some [OF this, of lat lng] show ?thesis by (auto simp: kb g_def)
  qed
  have cnt: "g kb ! 2 = PInt (block_count (snd kb))" if "kb \<in> set (filter_blocks 2 blocks)" for kb
  proof -
    obtain lat lng c where kb: "kb = ((lat, lng), c)" by (metis surj_pair)
    then have "block_count c \<noteq> 0" using that by (auto simp: filter_blocks_def)
    from row_crimes_Some [OF this, of lat lng] show ?thesis by (auto simp: kb g_def)
  qed
  let ?data = "sort_desc 2 (map g (filter_blocks 2 blocks))"
  have d: "data_crimes blocks = Some ?data"
    unfolding data_crimes_def using those_map_Some [of "filter_blocks 2 blocks" row_crimes g] some
    by simp
  have in2: "\<exists>x. row_crimes (k, b) = Some x \<and> x \<in> set ?data" if "block_count b = 2"
  proof -
    have "(k, b) \<in> set (filter_blocks 2 blocks)"
      using mem that by (simp add: filter_blocks_member)
    then show ?thesis using some [of "(k, b)"] by (auto simp: sort_desc_set)
  qed
  have out1: "x \<notin> set ?data" if "block_count b = 1" "row_crimes (k, b) = Some x" for x
  proof
    assume "x \<in> set ?data"
    then obtain kb where kb: "kb \<in> set (filter_blocks 2 blocks)" "x = g kb"
      by (auto simp: sort_desc_set)
    then have "x ! 2 = PInt (block_count (snd kb))" using cnt by simp
    moreover have "2 \<le> block_count (snd kb)" using kb(1) by (auto simp: filter_blocks_def)
    moreover have "x ! 2 = PInt 1"
    proof -
      obtain lat lng where "k = (lat, lng)" by (metis surj_pair)
      then show ?thesis using that row_crimes_Some [of b lat lng] by auto
    qed
    ultimately show False by simp
  qed
  from d in2 out1 show ?thesis by blast
qed

text \<open>
  C3, as the code has it. A cell whose count equals the threshold of its dataset is kept and
  written, and a cell whose count is one less is not written. The thresholds are: requests
  3, crimes 2, crashes 3 (\<^verbatim>\<open>process-neighborhood-data.py\<close>, and the same statements in
  \<^verbatim>\<open>update-neighborhood-data.py\<close>); permits 5, licenses 3, potholes 3
  (\<^verbatim>\<open>process-additional-data.py\<close>); violations 2, and potholes 2, permits 2, licenses 2 in
  \<^verbatim>\<open>update-neighborhood-data.py\<close>.
\<close>

theorem threshold_exactness:
  "((k, b_requests) \<in> set blocks_requests \<longrightarrow>
      (block_count b_requests = 3 \<longrightarrow> row_311 (k, b_requests) \<in> set (data_311 blocks_requests))
      \<and> (block_count b_requests = 2 \<longrightarrow> row_311 (k, b_requests) \<notin> set (data_311 blocks_requests)))
   \<and> ((k, b_crimes) \<in> set blocks_crimes \<longrightarrow>
      (\<exists>data. data_crimes blocks_crimes = Some data
         \<and> (block_count b_crimes = 2 \<longrightarrow> (\<exists>x. row_crimes (k, b_crimes) = Some x \<and> x \<in> set data))
         \<and> (block_count b_crimes = 1 \<longrightarrow> (\<forall>x. row_crimes (k, b_crimes) = Some x \<longrightarrow> x \<notin> set data))))
   \<and> ((k, b_crashes) \<in> set blocks_crashes \<longrightarrow>
      (block_count b_crashes = 3 \<longrightarrow> row_crashes (k, b_crashes) \<in> set (data_crashes blocks_crashes))
      \<and> (block_count b_crashes = 2 \<longrightarrow> row_crashes (k, b_crashes) \<notin> set (data_crashes blocks_crashes)))
   \<and> ((k, b_permits) \<in> set blocks_permits \<longrightarrow>
      (block_count b_permits = 5 \<longrightarrow> row_permits (k, b_permits) \<in> set (data_permits blocks_permits))
      \<and> (block_count b_permits = 4 \<longrightarrow> row_permits (k, b_permits) \<notin> set (data_permits blocks_permits)))
   \<and> ((k, b_licenses) \<in> set blocks_licenses \<longrightarrow>
      (block_count b_licenses = 3 \<longrightarrow> row_licenses (k, b_licenses) \<in> set (data_licenses blocks_licenses))
      \<and> (block_count b_licenses = 2 \<longrightarrow> row_licenses (k, b_licenses) \<notin> set (data_licenses blocks_licenses)))
   \<and> ((k, b_potholes) \<in> set blocks_potholes \<longrightarrow>
      (block_count b_potholes = 3 \<longrightarrow> row_potholes (k, b_potholes) \<in> set (data_potholes blocks_potholes))
      \<and> (block_count b_potholes = 2 \<longrightarrow> row_potholes (k, b_potholes) \<notin> set (data_potholes blocks_potholes)))
   \<and> ((k, b_violations) \<in> set blocks_violations \<longrightarrow>
      (block_count b_violations = 2 \<longrightarrow> row_violations (k, b_violations) \<in> set (data_violations blocks_violations))
      \<and> (block_count b_violations = 1 \<longrightarrow> row_violations (k, b_violations) \<notin> set (data_violations blocks_violations)))
   \<and> ((k, b_upd_potholes) \<in> set blocks_upd_potholes \<longrightarrow>
      (block_count b_upd_potholes = 2 \<longrightarrow> upd_row_potholes (k, b_upd_potholes) \<in> set (upd_data_potholes blocks_upd_potholes))
      \<and> (block_count b_upd_potholes = 1 \<longrightarrow> upd_row_potholes (k, b_upd_potholes) \<notin> set (upd_data_potholes blocks_upd_potholes)))
   \<and> ((k, b_upd_permits) \<in> set blocks_upd_permits \<longrightarrow>
      (block_count b_upd_permits = 2 \<longrightarrow> upd_row_permits (k, b_upd_permits) \<in> set (upd_data_permits blocks_upd_permits))
      \<and> (block_count b_upd_permits = 1 \<longrightarrow> upd_row_permits (k, b_upd_permits) \<notin> set (upd_data_permits blocks_upd_permits)))
   \<and> ((k, b_upd_licenses) \<in> set blocks_upd_licenses \<longrightarrow>
      (block_count b_upd_licenses = 2 \<longrightarrow> upd_row_licenses (k, b_upd_licenses) \<in> set (upd_data_licenses blocks_upd_licenses))
      \<and> (block_count b_upd_licenses = 1 \<longrightarrow> upd_row_licenses (k, b_upd_licenses) \<notin> set (upd_data_licenses blocks_upd_licenses)))"
proof -
  have c_311: "(k, b_requests) \<in> set blocks_requests \<Longrightarrow>
      (block_count b_requests = 3 \<longrightarrow> row_311 (k, b_requests) \<in> set (data_311 blocks_requests))
      \<and> (block_count b_requests = 2 \<longrightarrow> row_311 (k, b_requests) \<notin> set (data_311 blocks_requests))"
    using data_exact [where mk = row_311 and k = k and b = b_requests and blocks = blocks_requests and i = 2 and t = 3]
    by (simp add: data_311_def row_311_def split_beta)
  have c_crimes: "(k, b_crimes) \<in> set blocks_crimes \<Longrightarrow>
      (\<exists>data. data_crimes blocks_crimes = Some data
         \<and> (block_count b_crimes = 2 \<longrightarrow> (\<exists>x. row_crimes (k, b_crimes) = Some x \<and> x \<in> set data))
         \<and> (block_count b_crimes = 1 \<longrightarrow> (\<forall>x. row_crimes (k, b_crimes) = Some x \<longrightarrow> x \<notin> set data)))"
    by (rule data_crimes_exact)
  have c_crashes: "(k, b_crashes) \<in> set blocks_crashes \<Longrightarrow>
      (block_count b_crashes = 3 \<longrightarrow> row_crashes (k, b_crashes) \<in> set (data_crashes blocks_crashes))
      \<and> (block_count b_crashes = 2 \<longrightarrow> row_crashes (k, b_crashes) \<notin> set (data_crashes blocks_crashes))"
    using data_exact [where mk = row_crashes and k = k and b = b_crashes and blocks = blocks_crashes and i = 2 and t = 3]
    by (simp add: data_crashes_def row_crashes_def split_beta)
  have c_permits: "(k, b_permits) \<in> set blocks_permits \<Longrightarrow>
      (block_count b_permits = 5 \<longrightarrow> row_permits (k, b_permits) \<in> set (data_permits blocks_permits))
      \<and> (block_count b_permits = 4 \<longrightarrow> row_permits (k, b_permits) \<notin> set (data_permits blocks_permits))"
    using data_exact [where mk = row_permits and k = k and b = b_permits and blocks = blocks_permits and i = 2 and t = 5]
    by (simp add: data_permits_def row_permits_def split_beta)
  have c_licenses: "(k, b_licenses) \<in> set blocks_licenses \<Longrightarrow>
      (block_count b_licenses = 3 \<longrightarrow> row_licenses (k, b_licenses) \<in> set (data_licenses blocks_licenses))
      \<and> (block_count b_licenses = 2 \<longrightarrow> row_licenses (k, b_licenses) \<notin> set (data_licenses blocks_licenses))"
    using data_exact [where mk = row_licenses and k = k and b = b_licenses and blocks = blocks_licenses and i = 2 and t = 3]
    by (simp add: data_licenses_def row_licenses_def split_beta)
  have c_potholes: "(k, b_potholes) \<in> set blocks_potholes \<Longrightarrow>
      (block_count b_potholes = 3 \<longrightarrow> row_potholes (k, b_potholes) \<in> set (data_potholes blocks_potholes))
      \<and> (block_count b_potholes = 2 \<longrightarrow> row_potholes (k, b_potholes) \<notin> set (data_potholes blocks_potholes))"
    using data_exact [where mk = row_potholes and k = k and b = b_potholes and blocks = blocks_potholes and i = 3 and t = 3]
    by (simp add: data_potholes_def row_potholes_def split_beta)
  have c_violations: "(k, b_violations) \<in> set blocks_violations \<Longrightarrow>
      (block_count b_violations = 2 \<longrightarrow> row_violations (k, b_violations) \<in> set (data_violations blocks_violations))
      \<and> (block_count b_violations = 1 \<longrightarrow> row_violations (k, b_violations) \<notin> set (data_violations blocks_violations))"
    using data_exact [where mk = row_violations and k = k and b = b_violations and blocks = blocks_violations and i = 2 and t = 2]
    by (simp add: data_violations_def row_violations_def split_beta)
  have c_upd_potholes: "(k, b_upd_potholes) \<in> set blocks_upd_potholes \<Longrightarrow>
      (block_count b_upd_potholes = 2 \<longrightarrow> upd_row_potholes (k, b_upd_potholes) \<in> set (upd_data_potholes blocks_upd_potholes))
      \<and> (block_count b_upd_potholes = 1 \<longrightarrow> upd_row_potholes (k, b_upd_potholes) \<notin> set (upd_data_potholes blocks_upd_potholes))"
    using data_exact [where mk = upd_row_potholes and k = k and b = b_upd_potholes and blocks = blocks_upd_potholes and i = 2 and t = 2]
    by (simp add: upd_data_potholes_def upd_row_potholes_def split_beta)
  have c_upd_permits: "(k, b_upd_permits) \<in> set blocks_upd_permits \<Longrightarrow>
      (block_count b_upd_permits = 2 \<longrightarrow> upd_row_permits (k, b_upd_permits) \<in> set (upd_data_permits blocks_upd_permits))
      \<and> (block_count b_upd_permits = 1 \<longrightarrow> upd_row_permits (k, b_upd_permits) \<notin> set (upd_data_permits blocks_upd_permits))"
    using data_exact [where mk = upd_row_permits and k = k and b = b_upd_permits and blocks = blocks_upd_permits and i = 2 and t = 2]
    by (simp add: upd_data_permits_def upd_row_permits_def split_beta)
  have c_upd_licenses: "(k, b_upd_licenses) \<in> set blocks_upd_licenses \<Longrightarrow>
      (block_count b_upd_licenses = 2 \<longrightarrow> upd_row_licenses (k, b_upd_licenses) \<in> set (upd_data_licenses blocks_upd_licenses))
      \<and> (block_count b_upd_licenses = 1 \<longrightarrow> upd_row_licenses (k, b_upd_licenses) \<notin> set (upd_data_licenses blocks_upd_licenses))"
    using data_exact [where mk = upd_row_licenses and k = k and b = b_upd_licenses and blocks = blocks_upd_licenses and i = 2 and t = 2]
    by (simp add: upd_data_licenses_def upd_row_licenses_def split_beta)
  from c_311 c_crimes c_crashes c_permits c_licenses c_potholes c_violations c_upd_potholes c_upd_permits c_upd_licenses
  show ?thesis by blast
qed

text \<open>
  The theorem on a table of two cells per dataset, one with the threshold count and one
  with one less: the first is written, the second is not.
\<close>

theorem threshold_exactness_witness:
  "row_311 ((417 / 10, - 877 / 10), \<lparr>block_count = 3, address = None, categories = [], ward = None, recent_count = 0\<rparr>)
     \<in> set (data_311
       [((417 / 10, - 877 / 10), \<lparr>block_count = 3, address = None, categories = [], ward = None, recent_count = 0\<rparr>),
        ((418 / 10, - 876 / 10), \<lparr>block_count = 2, address = None, categories = [], ward = None, recent_count = 0\<rparr>)])
   \<and> row_311 ((418 / 10, - 876 / 10), \<lparr>block_count = 2, address = None, categories = [], ward = None, recent_count = 0\<rparr>)
     \<notin> set (data_311
       [((417 / 10, - 877 / 10), \<lparr>block_count = 3, address = None, categories = [], ward = None, recent_count = 0\<rparr>),
        ((418 / 10, - 876 / 10), \<lparr>block_count = 2, address = None, categories = [], ward = None, recent_count = 0\<rparr>)])
   \<and> (\<exists>data. data_crimes
       [((417 / 10, - 877 / 10), \<lparr>block_count = 2, address = None, categories = [], ward = None, arrests = 0\<rparr>),
        ((418 / 10, - 876 / 10), \<lparr>block_count = 1, address = None, categories = [], ward = None, arrests = 0\<rparr>)] = Some data
      \<and> (\<exists>x. row_crimes ((417 / 10, - 877 / 10), \<lparr>block_count = 2, address = None, categories = [], ward = None, arrests = 0\<rparr>) = Some x \<and> x \<in> set data))
   \<and> (\<exists>data. data_crimes
       [((417 / 10, - 877 / 10), \<lparr>block_count = 2, address = None, categories = [], ward = None, arrests = 0\<rparr>),
        ((418 / 10, - 876 / 10), \<lparr>block_count = 1, address = None, categories = [], ward = None, arrests = 0\<rparr>)] = Some data
      \<and> (\<forall>x. row_crimes ((418 / 10, - 876 / 10), \<lparr>block_count = 1, address = None, categories = [], ward = None, arrests = 0\<rparr>) = Some x \<longrightarrow> x \<notin> set data))
   \<and> row_crashes ((417 / 10, - 877 / 10), \<lparr>block_count = 3, address = None, injuries = 0, fatal = 0, hit_and_run = 0\<rparr>)
     \<in> set (data_crashes
       [((417 / 10, - 877 / 10), \<lparr>block_count = 3, address = None, injuries = 0, fatal = 0, hit_and_run = 0\<rparr>),
        ((418 / 10, - 876 / 10), \<lparr>block_count = 2, address = None, injuries = 0, fatal = 0, hit_and_run = 0\<rparr>)])
   \<and> row_crashes ((418 / 10, - 876 / 10), \<lparr>block_count = 2, address = None, injuries = 0, fatal = 0, hit_and_run = 0\<rparr>)
     \<notin> set (data_crashes
       [((417 / 10, - 877 / 10), \<lparr>block_count = 3, address = None, injuries = 0, fatal = 0, hit_and_run = 0\<rparr>),
        ((418 / 10, - 876 / 10), \<lparr>block_count = 2, address = None, injuries = 0, fatal = 0, hit_and_run = 0\<rparr>)])
   \<and> row_permits ((417 / 10, - 877 / 10), \<lparr>block_count = 5, address = None, categories = [], ward = None,
          total_cost = 0, permits_recent_count = 0\<rparr>)
     \<in> set (data_permits
       [((417 / 10, - 877 / 10), \<lparr>block_count = 5, address = None, categories = [], ward = None,
          total_cost = 0, permits_recent_count = 0\<rparr>),
        ((418 / 10, - 876 / 10), \<lparr>block_count = 4, address = None, categories = [], ward = None,
          total_cost = 0, permits_recent_count = 0\<rparr>)])
   \<and> row_permits ((418 / 10, - 876 / 10), \<lparr>block_count = 4, address = None, categories = [], ward = None,
          total_cost = 0, permits_recent_count = 0\<rparr>)
     \<notin> set (data_permits
       [((417 / 10, - 877 / 10), \<lparr>block_count = 5, address = None, categories = [], ward = None,
          total_cost = 0, permits_recent_count = 0\<rparr>),
        ((418 / 10, - 876 / 10), \<lparr>block_count = 4, address = None, categories = [], ward = None,
          total_cost = 0, permits_recent_count = 0\<rparr>)])
   \<and> row_licenses ((417 / 10, - 877 / 10), \<lparr>block_count = 3, address = None, categories = [], ward = None, active = 0\<rparr>)
     \<in> set (data_licenses
       [((417 / 10, - 877 / 10), \<lparr>block_count = 3, address = None, categories = [], ward = None, active = 0\<rparr>),
        ((418 / 10, - 876 / 10), \<lparr>block_count = 2, address = None, categories = [], ward = None, active = 0\<rparr>)])
   \<and> row_licenses ((418 / 10, - 876 / 10), \<lparr>block_count = 2, address = None, categories = [], ward = None, active = 0\<rparr>)
     \<notin> set (data_licenses
       [((417 / 10, - 877 / 10), \<lparr>block_count = 3, address = None, categories = [], ward = None, active = 0\<rparr>),
        ((418 / 10, - 876 / 10), \<lparr>block_count = 2, address = None, categories = [], ward = None, active = 0\<rparr>)])
   \<and> row_potholes ((417 / 10, - 877 / 10), \<lparr>block_count = 3, address = None, potholes_filled = 0, potholes_recent_count = 0\<rparr>)
     \<in> set (data_potholes
       [((417 / 10, - 877 / 10), \<lparr>block_count = 3, address = None, potholes_filled = 0, potholes_recent_count = 0\<rparr>),
        ((418 / 10, - 876 / 10), \<lparr>block_count = 2, address = None, potholes_filled = 0, potholes_recent_count = 0\<rparr>)])
   \<and> row_potholes ((418 / 10, - 876 / 10), \<lparr>block_count = 2, address = None, potholes_filled = 0, potholes_recent_count = 0\<rparr>)
     \<notin> set (data_potholes
       [((417 / 10, - 877 / 10), \<lparr>block_count = 3, address = None, potholes_filled = 0, potholes_recent_count = 0\<rparr>),
        ((418 / 10, - 876 / 10), \<lparr>block_count = 2, address = None, potholes_filled = 0, potholes_recent_count = 0\<rparr>)])
   \<and> row_violations ((417 / 10, - 877 / 10), \<lparr>block_count = 2, address = None, high_risk = 0, open_count = 0\<rparr>)
     \<in> set (data_violations
       [((417 / 10, - 877 / 10), \<lparr>block_count = 2, address = None, high_risk = 0, open_count = 0\<rparr>),
        ((418 / 10, - 876 / 10), \<lparr>block_count = 1, address = None, high_risk = 0, open_count = 0\<rparr>)])
   \<and> row_violations ((418 / 10, - 876 / 10), \<lparr>block_count = 1, address = None, high_risk = 0, open_count = 0\<rparr>)
     \<notin> set (data_violations
       [((417 / 10, - 877 / 10), \<lparr>block_count = 2, address = None, high_risk = 0, open_count = 0\<rparr>),
        ((418 / 10, - 876 / 10), \<lparr>block_count = 1, address = None, high_risk = 0, open_count = 0\<rparr>)])
   \<and> upd_row_potholes ((417 / 10, - 877 / 10), \<lparr>block_count = 2, address = None, filled = 0, completed = 0\<rparr>)
     \<in> set (upd_data_potholes
       [((417 / 10, - 877 / 10), \<lparr>block_count = 2, address = None, filled = 0, completed = 0\<rparr>),
        ((418 / 10, - 876 / 10), \<lparr>block_count = 1, address = None, filled = 0, completed = 0\<rparr>)])
   \<and> upd_row_potholes ((418 / 10, - 876 / 10), \<lparr>block_count = 1, address = None, filled = 0, completed = 0\<rparr>)
     \<notin> set (upd_data_potholes
       [((417 / 10, - 877 / 10), \<lparr>block_count = 2, address = None, filled = 0, completed = 0\<rparr>),
        ((418 / 10, - 876 / 10), \<lparr>block_count = 1, address = None, filled = 0, completed = 0\<rparr>)])
   \<and> upd_row_permits ((417 / 10, - 877 / 10), \<lparr>block_count = 2, address = None, issued = 0, cost = 0\<rparr>)
     \<in> set (upd_data_permits
       [((417 / 10, - 877 / 10), \<lparr>block_count = 2, address = None, issued = 0, cost = 0\<rparr>),
        ((418 / 10, - 876 / 10), \<lparr>block_count = 1, address = None, issued = 0, cost = 0\<rparr>)])
   \<and> upd_row_permits ((418 / 10, - 876 / 10), \<lparr>block_count = 1, address = None, issued = 0, cost = 0\<rparr>)
     \<notin> set (upd_data_permits
       [((417 / 10, - 877 / 10), \<lparr>block_count = 2, address = None, issued = 0, cost = 0\<rparr>),
        ((418 / 10, - 876 / 10), \<lparr>block_count = 1, address = None, issued = 0, cost = 0\<rparr>)])
   \<and> upd_row_licenses ((417 / 10, - 877 / 10), \<lparr>block_count = 2, address = None, upd_active = 0\<rparr>)
     \<in> set (upd_data_licenses
       [((417 / 10, - 877 / 10), \<lparr>block_count = 2, address = None, upd_active = 0\<rparr>),
        ((418 / 10, - 876 / 10), \<lparr>block_count = 1, address = None, upd_active = 0\<rparr>)])
   \<and> upd_row_licenses ((418 / 10, - 876 / 10), \<lparr>block_count = 1, address = None, upd_active = 0\<rparr>)
     \<notin> set (upd_data_licenses
       [((417 / 10, - 877 / 10), \<lparr>block_count = 2, address = None, upd_active = 0\<rparr>),
        ((418 / 10, - 876 / 10), \<lparr>block_count = 1, address = None, upd_active = 0\<rparr>)])"
proof -
  note A = threshold_exactness [where k = "(417 / 10, - 877 / 10)"
      and b_requests = "\<lparr>block_count = 3, address = None, categories = [], ward = None, recent_count = 0\<rparr>"
      and blocks_requests = "[((417 / 10, - 877 / 10), \<lparr>block_count = 3, address = None, categories = [], ward = None, recent_count = 0\<rparr>),
        ((418 / 10, - 876 / 10), \<lparr>block_count = 2, address = None, categories = [], ward = None, recent_count = 0\<rparr>)]"
      and b_crimes = "\<lparr>block_count = 2, address = None, categories = [], ward = None, arrests = 0\<rparr>"
      and blocks_crimes = "[((417 / 10, - 877 / 10), \<lparr>block_count = 2, address = None, categories = [], ward = None, arrests = 0\<rparr>),
        ((418 / 10, - 876 / 10), \<lparr>block_count = 1, address = None, categories = [], ward = None, arrests = 0\<rparr>)]"
      and b_crashes = "\<lparr>block_count = 3, address = None, injuries = 0, fatal = 0, hit_and_run = 0\<rparr>"
      and blocks_crashes = "[((417 / 10, - 877 / 10), \<lparr>block_count = 3, address = None, injuries = 0, fatal = 0, hit_and_run = 0\<rparr>),
        ((418 / 10, - 876 / 10), \<lparr>block_count = 2, address = None, injuries = 0, fatal = 0, hit_and_run = 0\<rparr>)]"
      and b_permits = "\<lparr>block_count = 5, address = None, categories = [], ward = None,
          total_cost = 0, permits_recent_count = 0\<rparr>"
      and blocks_permits = "[((417 / 10, - 877 / 10), \<lparr>block_count = 5, address = None, categories = [], ward = None,
          total_cost = 0, permits_recent_count = 0\<rparr>),
        ((418 / 10, - 876 / 10), \<lparr>block_count = 4, address = None, categories = [], ward = None,
          total_cost = 0, permits_recent_count = 0\<rparr>)]"
      and b_licenses = "\<lparr>block_count = 3, address = None, categories = [], ward = None, active = 0\<rparr>"
      and blocks_licenses = "[((417 / 10, - 877 / 10), \<lparr>block_count = 3, address = None, categories = [], ward = None, active = 0\<rparr>),
        ((418 / 10, - 876 / 10), \<lparr>block_count = 2, address = None, categories = [], ward = None, active = 0\<rparr>)]"
      and b_potholes = "\<lparr>block_count = 3, address = None, potholes_filled = 0, potholes_recent_count = 0\<rparr>"
      and blocks_potholes = "[((417 / 10, - 877 / 10), \<lparr>block_count = 3, address = None, potholes_filled = 0, potholes_recent_count = 0\<rparr>),
        ((418 / 10, - 876 / 10), \<lparr>block_count = 2, address = None, potholes_filled = 0, potholes_recent_count = 0\<rparr>)]"
      and b_violations = "\<lparr>block_count = 2, address = None, high_risk = 0, open_count = 0\<rparr>"
      and blocks_violations = "[((417 / 10, - 877 / 10), \<lparr>block_count = 2, address = None, high_risk = 0, open_count = 0\<rparr>),
        ((418 / 10, - 876 / 10), \<lparr>block_count = 1, address = None, high_risk = 0, open_count = 0\<rparr>)]"
      and b_upd_potholes = "\<lparr>block_count = 2, address = None, filled = 0, completed = 0\<rparr>"
      and blocks_upd_potholes = "[((417 / 10, - 877 / 10), \<lparr>block_count = 2, address = None, filled = 0, completed = 0\<rparr>),
        ((418 / 10, - 876 / 10), \<lparr>block_count = 1, address = None, filled = 0, completed = 0\<rparr>)]"
      and b_upd_permits = "\<lparr>block_count = 2, address = None, issued = 0, cost = 0\<rparr>"
      and blocks_upd_permits = "[((417 / 10, - 877 / 10), \<lparr>block_count = 2, address = None, issued = 0, cost = 0\<rparr>),
        ((418 / 10, - 876 / 10), \<lparr>block_count = 1, address = None, issued = 0, cost = 0\<rparr>)]"
      and b_upd_licenses = "\<lparr>block_count = 2, address = None, upd_active = 0\<rparr>"
      and blocks_upd_licenses = "[((417 / 10, - 877 / 10), \<lparr>block_count = 2, address = None, upd_active = 0\<rparr>),
        ((418 / 10, - 876 / 10), \<lparr>block_count = 1, address = None, upd_active = 0\<rparr>)]"]
  note B = threshold_exactness [where k = "(418 / 10, - 876 / 10)"
      and b_requests = "\<lparr>block_count = 2, address = None, categories = [], ward = None, recent_count = 0\<rparr>"
      and blocks_requests = "[((417 / 10, - 877 / 10), \<lparr>block_count = 3, address = None, categories = [], ward = None, recent_count = 0\<rparr>),
        ((418 / 10, - 876 / 10), \<lparr>block_count = 2, address = None, categories = [], ward = None, recent_count = 0\<rparr>)]"
      and b_crimes = "\<lparr>block_count = 1, address = None, categories = [], ward = None, arrests = 0\<rparr>"
      and blocks_crimes = "[((417 / 10, - 877 / 10), \<lparr>block_count = 2, address = None, categories = [], ward = None, arrests = 0\<rparr>),
        ((418 / 10, - 876 / 10), \<lparr>block_count = 1, address = None, categories = [], ward = None, arrests = 0\<rparr>)]"
      and b_crashes = "\<lparr>block_count = 2, address = None, injuries = 0, fatal = 0, hit_and_run = 0\<rparr>"
      and blocks_crashes = "[((417 / 10, - 877 / 10), \<lparr>block_count = 3, address = None, injuries = 0, fatal = 0, hit_and_run = 0\<rparr>),
        ((418 / 10, - 876 / 10), \<lparr>block_count = 2, address = None, injuries = 0, fatal = 0, hit_and_run = 0\<rparr>)]"
      and b_permits = "\<lparr>block_count = 4, address = None, categories = [], ward = None,
          total_cost = 0, permits_recent_count = 0\<rparr>"
      and blocks_permits = "[((417 / 10, - 877 / 10), \<lparr>block_count = 5, address = None, categories = [], ward = None,
          total_cost = 0, permits_recent_count = 0\<rparr>),
        ((418 / 10, - 876 / 10), \<lparr>block_count = 4, address = None, categories = [], ward = None,
          total_cost = 0, permits_recent_count = 0\<rparr>)]"
      and b_licenses = "\<lparr>block_count = 2, address = None, categories = [], ward = None, active = 0\<rparr>"
      and blocks_licenses = "[((417 / 10, - 877 / 10), \<lparr>block_count = 3, address = None, categories = [], ward = None, active = 0\<rparr>),
        ((418 / 10, - 876 / 10), \<lparr>block_count = 2, address = None, categories = [], ward = None, active = 0\<rparr>)]"
      and b_potholes = "\<lparr>block_count = 2, address = None, potholes_filled = 0, potholes_recent_count = 0\<rparr>"
      and blocks_potholes = "[((417 / 10, - 877 / 10), \<lparr>block_count = 3, address = None, potholes_filled = 0, potholes_recent_count = 0\<rparr>),
        ((418 / 10, - 876 / 10), \<lparr>block_count = 2, address = None, potholes_filled = 0, potholes_recent_count = 0\<rparr>)]"
      and b_violations = "\<lparr>block_count = 1, address = None, high_risk = 0, open_count = 0\<rparr>"
      and blocks_violations = "[((417 / 10, - 877 / 10), \<lparr>block_count = 2, address = None, high_risk = 0, open_count = 0\<rparr>),
        ((418 / 10, - 876 / 10), \<lparr>block_count = 1, address = None, high_risk = 0, open_count = 0\<rparr>)]"
      and b_upd_potholes = "\<lparr>block_count = 1, address = None, filled = 0, completed = 0\<rparr>"
      and blocks_upd_potholes = "[((417 / 10, - 877 / 10), \<lparr>block_count = 2, address = None, filled = 0, completed = 0\<rparr>),
        ((418 / 10, - 876 / 10), \<lparr>block_count = 1, address = None, filled = 0, completed = 0\<rparr>)]"
      and b_upd_permits = "\<lparr>block_count = 1, address = None, issued = 0, cost = 0\<rparr>"
      and blocks_upd_permits = "[((417 / 10, - 877 / 10), \<lparr>block_count = 2, address = None, issued = 0, cost = 0\<rparr>),
        ((418 / 10, - 876 / 10), \<lparr>block_count = 1, address = None, issued = 0, cost = 0\<rparr>)]"
      and b_upd_licenses = "\<lparr>block_count = 1, address = None, upd_active = 0\<rparr>"
      and blocks_upd_licenses = "[((417 / 10, - 877 / 10), \<lparr>block_count = 2, address = None, upd_active = 0\<rparr>),
        ((418 / 10, - 876 / 10), \<lparr>block_count = 1, address = None, upd_active = 0\<rparr>)]"]
  show ?thesis
    apply (intro conjI)
    using A apply simp
    using B apply simp
    using A apply simp
    using B apply simp
    using A apply simp
    using B apply simp
    using A apply simp
    using B apply simp
    using A apply simp
    using B apply simp
    using A apply simp
    using B apply simp
    using A apply simp
    using B apply simp
    using A apply simp
    using B apply simp
    using A apply simp
    using B apply simp
    using A apply simp
    using B apply simp
    done
qed

text \<open>
  C3 as stated fails: it gives the permits dataset the threshold 5 and the licenses and
  potholes datasets the threshold 3 everywhere, but \<^verbatim>\<open>update-neighborhood-data.py\<close> keeps
  and writes a permits cell with count 4 and a licenses cell and a potholes cell with
  count 2.
\<close>

theorem threshold_update_script_differs:
  "upd_data_permits
     [((417 / 10, - 877 / 10), \<lparr>block_count = 4, address = Some ''1 N A ST'', issued = 3, cost = 2500\<rparr>)]
   = [[PFloat (417 / 10), PFloat (- 877 / 10), PInt 4, PInt 3, PInt 2500, PStr ''1 N A ST'']]
   \<and> upd_data_licenses
     [((417 / 10, - 877 / 10), \<lparr>block_count = 2, address = Some ''1 N A ST'', upd_active = 1\<rparr>)]
   = [[PFloat (417 / 10), PFloat (- 877 / 10), PInt 2, PInt 1, PStr ''1 N A ST'']]
   \<and> upd_data_potholes
     [((417 / 10, - 877 / 10), \<lparr>block_count = 2, address = Some ''1 N A ST'', filled = 7, completed = 1\<rparr>)]
   = [[PFloat (417 / 10), PFloat (- 877 / 10), PInt 2, PInt 7, PInt 1, PStr ''1 N A ST'']]"
  by code_simp

lemma row_potholes_filled: "num (row_potholes (k, b) ! 3) = potholes_filled b"
  by (cases k) (simp add: row_potholes_def)

lemma upd_row_potholes_count: "num (upd_row_potholes (k, b) ! 2) = block_count b"
  by (cases k) (simp add: upd_row_potholes_def)

text \<open>
  C2, as the code has it. In the potholes dataset of \<^verbatim>\<open>process-additional-data.py\<close> the
  written rows are the rows of the surviving cells (count at least 3), in descending order
  of the summed potholes filled (position 3 of a row): a row never follows one with a
  smaller sum, and of two surviving cells the one with the strictly larger sum comes
  first, whatever their counts. The potholes dataset of \<^verbatim>\<open>update-neighborhood-data.py\<close> is
  instead in descending order of the count (position 2 of a row).
\<close>

theorem potholes_sorted_by_filled:
  "mset (data_potholes blocks) = mset (map row_potholes (filter_blocks 3 blocks))
   \<and> (\<forall>m n. m < n \<and> n < length (data_potholes blocks) \<longrightarrow>
          num (data_potholes blocks ! n ! 3) \<le> num (data_potholes blocks ! m ! 3))
   \<and> ((k1, b1) \<in> set blocks \<and> (k2, b2) \<in> set blocks
        \<and> 3 \<le> block_count b1 \<and> 3 \<le> block_count b2
        \<and> potholes_filled b2 < potholes_filled b1 \<longrightarrow>
        (\<exists>m n. m < n \<and> n < length (data_potholes blocks)
           \<and> data_potholes blocks ! m = row_potholes (k1, b1)
           \<and> data_potholes blocks ! n = row_potholes (k2, b2)))
   \<and> mset (upd_data_potholes ublocks) = mset (map upd_row_potholes (filter_blocks 2 ublocks))
   \<and> (\<forall>m n. m < n \<and> n < length (upd_data_potholes ublocks) \<longrightarrow>
          num (upd_data_potholes ublocks ! n ! 2) \<le> num (upd_data_potholes ublocks ! m ! 2))"
proof (intro conjI allI impI)
  show "mset (data_potholes blocks) = mset (map row_potholes (filter_blocks 3 blocks))"
    by (simp add: data_potholes_def sort_desc_mset)
  show "mset (upd_data_potholes ublocks) = mset (map upd_row_potholes (filter_blocks 2 ublocks))"
    by (simp add: upd_data_potholes_def sort_desc_mset)
next
  fix m n
  assume "m < n \<and> n < length (data_potholes blocks)"
  then show "num (data_potholes blocks ! n ! 3) \<le> num (data_potholes blocks ! m ! 3)"
    unfolding data_potholes_def by (simp add: sort_desc_nth_mono)
next
  fix m n
  assume "m < n \<and> n < length (upd_data_potholes ublocks)"
  then show "num (upd_data_potholes ublocks ! n ! 2) \<le> num (upd_data_potholes ublocks ! m ! 2)"
    unfolding upd_data_potholes_def by (simp add: sort_desc_nth_mono)
next
  let ?d = "data_potholes blocks"
  assume a: "(k1, b1) \<in> set blocks \<and> (k2, b2) \<in> set blocks
        \<and> 3 \<le> block_count b1 \<and> 3 \<le> block_count b2
        \<and> potholes_filled b2 < potholes_filled b1"
  then have "row_potholes (k1, b1) \<in> set ?d" and "row_potholes (k2, b2) \<in> set ?d"
    by (simp_all add: data_potholes_def sort_desc_set filter_blocks_member)
  then obtain m n where m: "m < length ?d" "?d ! m = row_potholes (k1, b1)"
    and n: "n < length ?d" "?d ! n = row_potholes (k2, b2)"
    by (auto simp: in_set_conv_nth)
  have "m < n"
  proof (rule ccontr)
    assume "\<not> m < n"
    then consider "m = n" | "n < m" by linarith
    then show False
    proof cases
      case 1
      then have "num (row_potholes (k1, b1) ! 3) = num (row_potholes (k2, b2) ! 3)"
        using m n by simp
      then show False using a by (simp add: row_potholes_filled)
    next
      case 2
      then have "num (?d ! m ! 3) \<le> num (?d ! n ! 3)"
        using m(1) unfolding data_potholes_def by (simp add: sort_desc_nth_mono)
      then show False using a m n by (simp add: row_potholes_filled)
    qed
  qed
  then show "\<exists>m n. m < n \<and> n < length ?d \<and> ?d ! m = row_potholes (k1, b1)
               \<and> ?d ! n = row_potholes (k2, b2)"
    using m n by blast
qed

text \<open>
  The theorem on the scenario of the specification: a cell with count 5 and 10 potholes
  filled, inserted first, and a cell with count 3 and 40 potholes filled. In
  \<^verbatim>\<open>process-additional-data.py\<close> the second cell is written first.
\<close>

theorem potholes_sorted_by_filled_witness:
  "(\<exists>m n. m < n
      \<and> n < length (data_potholes [((417 / 10, - 877 / 10),
          \<lparr>block_count = 5, address = Some ''1 N A ST'', potholes_filled = 10,
           potholes_recent_count = 0\<rparr>),
         ((418 / 10, - 876 / 10),
          \<lparr>block_count = 3, address = Some ''2 N B ST'', potholes_filled = 40,
           potholes_recent_count = 0\<rparr>)])
      \<and> data_potholes [((417 / 10, - 877 / 10),
          \<lparr>block_count = 5, address = Some ''1 N A ST'', potholes_filled = 10,
           potholes_recent_count = 0\<rparr>),
         ((418 / 10, - 876 / 10),
          \<lparr>block_count = 3, address = Some ''2 N B ST'', potholes_filled = 40,
           potholes_recent_count = 0\<rparr>)] ! m
        = row_potholes ((418 / 10, - 876 / 10),
          \<lparr>block_count = 3, address = Some ''2 N B ST'', potholes_filled = 40,
           potholes_recent_count = 0\<rparr>)
      \<and> data_potholes [((417 / 10, - 877 / 10),
          \<lparr>block_count = 5, address = Some ''1 N A ST'', potholes_filled = 10,
           potholes_recent_count = 0\<rparr>),
         ((418 / 10, - 876 / 10),
          \<lparr>block_count = 3, address = Some ''2 N B ST'', potholes_filled = 40,
           potholes_recent_count = 0\<rparr>)] ! n
        = row_potholes ((417 / 10, - 877 / 10),
          \<lparr>block_count = 5, address = Some ''1 N A ST'', potholes_filled = 10,
           potholes_recent_count = 0\<rparr>))
   \<and> data_potholes [((417 / 10, - 877 / 10),
          \<lparr>block_count = 5, address = Some ''1 N A ST'', potholes_filled = 10,
           potholes_recent_count = 0\<rparr>),
         ((418 / 10, - 876 / 10),
          \<lparr>block_count = 3, address = Some ''2 N B ST'', potholes_filled = 40,
           potholes_recent_count = 0\<rparr>)]
     = [[PFloat (418 / 10), PFloat (- 876 / 10), PInt 3, PInt 40, PInt 80, PStr ''2 N B ST'',
         PInt 0],
        [PFloat (417 / 10), PFloat (- 877 / 10), PInt 5, PInt 10, PInt 20, PStr ''1 N A ST'',
         PInt 0]]"
proof -
  have run: "data_potholes [((417 / 10, - 877 / 10),
          \<lparr>block_count = 5, address = Some ''1 N A ST'', potholes_filled = 10,
           potholes_recent_count = 0\<rparr>),
         ((418 / 10, - 876 / 10),
          \<lparr>block_count = 3, address = Some ''2 N B ST'', potholes_filled = 40,
           potholes_recent_count = 0\<rparr>)]
     = [[PFloat (418 / 10), PFloat (- 876 / 10), PInt 3, PInt 40, PInt 80, PStr ''2 N B ST'',
         PInt 0],
        [PFloat (417 / 10), PFloat (- 877 / 10), PInt 5, PInt 10, PInt 20, PStr ''1 N A ST'',
         PInt 0]]"
    by code_simp
  have "\<exists>m n. m < n
      \<and> n < length (data_potholes [((417 / 10, - 877 / 10),
          \<lparr>block_count = 5, address = Some ''1 N A ST'', potholes_filled = 10,
           potholes_recent_count = 0\<rparr>),
         ((418 / 10, - 876 / 10),
          \<lparr>block_count = 3, address = Some ''2 N B ST'', potholes_filled = 40,
           potholes_recent_count = 0\<rparr>)])
      \<and> data_potholes [((417 / 10, - 877 / 10),
          \<lparr>block_count = 5, address = Some ''1 N A ST'', potholes_filled = 10,
           potholes_recent_count = 0\<rparr>),
         ((418 / 10, - 876 / 10),
          \<lparr>block_count = 3, address = Some ''2 N B ST'', potholes_filled = 40,
           potholes_recent_count = 0\<rparr>)] ! m
        = row_potholes ((418 / 10, - 876 / 10),
          \<lparr>block_count = 3, address = Some ''2 N B ST'', potholes_filled = 40,
           potholes_recent_count = 0\<rparr>)
      \<and> data_potholes [((417 / 10, - 877 / 10),
          \<lparr>block_count = 5, address = Some ''1 N A ST'', potholes_filled = 10,
           potholes_recent_count = 0\<rparr>),
         ((418 / 10, - 876 / 10),
          \<lparr>block_count = 3, address = Some ''2 N B ST'', potholes_filled = 40,
           potholes_recent_count = 0\<rparr>)] ! n
        = row_potholes ((417 / 10, - 877 / 10),
          \<lparr>block_count = 5, address = Some ''1 N A ST'', potholes_filled = 10,
           potholes_recent_count = 0\<rparr>)"
    using potholes_sorted_by_filled
      [where blocks = "[((417 / 10, - 877 / 10),
          \<lparr>block_count = 5, address = Some ''1 N A ST'', potholes_filled = 10,
           potholes_recent_count = 0\<rparr>),
         ((418 / 10, - 876 / 10),
          \<lparr>block_count = 3, address = Some ''2 N B ST'', potholes_filled = 40,
           potholes_recent_count = 0\<rparr>)]"
         and ?k1.0 = "(418 / 10, - 876 / 10)"
         and ?b1.0 = "\<lparr>block_count = 3, address = Some ''2 N B ST'', potholes_filled = 40,
           potholes_recent_count = 0\<rparr>"
         and ?k2.0 = "(417 / 10, - 877 / 10)"
         and ?b2.0 = "\<lparr>block_count = 5, address = Some ''1 N A ST'', potholes_filled = 10,
           potholes_recent_count = 0\<rparr>"]
    by simp
  then show ?thesis using run by blast
qed

text \<open>
  C2 as stated fails for the potholes dataset of \<^verbatim>\<open>update-neighborhood-data.py\<close>: on the
  same two cells it writes the cell with count 5 and 10 filled before the cell with count 3
  and 40 filled.
\<close>

theorem update_potholes_sorted_by_count:
  "upd_data_potholes
     [((417 / 10, - 877 / 10),
       \<lparr>block_count = 3, address = Some ''2 N B ST'', filled = 40, completed = 3\<rparr>),
      ((418 / 10, - 876 / 10),
       \<lparr>block_count = 5, address = Some ''1 N A ST'', filled = 10, completed = 5\<rparr>)]
   = [[PFloat (418 / 10), PFloat (- 876 / 10), PInt 5, PInt 10, PInt 5, PStr ''1 N A ST''],
      [PFloat (417 / 10), PFloat (- 877 / 10), PInt 3, PInt 40, PInt 3, PStr ''2 N B ST'']]"
  by code_simp

end
